theory Spec2Isabelle
  imports Main "HOL-Library.Word" "HOL-Library.Sublist" "HOL-Library.AList"
begin

section \<open>Temporary files and directories: the program and its platform\<close>

text \<open>
  The program under study is \<^verbatim>\<open>examples/temporary-files-and-directories\<close>: a
  function \<^verbatim>\<open>check\<close> and a linear \<^verbatim>\<open>main\<close> that calls the operating system
  through Go's standard library and registers three deferred calls.  The
  program is embedded as a function from an environment (everything the
  platform decides: the initial file system, the temporary location, the
  random name candidates, which operation fails) to an outcome and a final
  state.  The state carries a trace of every platform call, with its result
  and the file system right after it, so that orderings can be stated.
\<close>

subsection \<open>Values\<close>

type_synonym path = string
type_synonym byte = "8 word"

text \<open>A non-nil Go \<^verbatim>\<open>error\<close>; the nil error is \<open>None\<close> of \<open>error option\<close>.\<close>

datatype error = Error string

text \<open>An \<^verbatim>\<open>*os.File\<close>: the handle is identified by the name it was opened with.\<close>

datatype os_file = File (Name: path)

datatype node = RegularFile "byte list" | Directory

text \<open>The platform calls the program makes, with their arguments.\<close>

datatype call =
    is_CreateTemp: CreateTemp string string
  | is_Println: Println "string list"
  | is_Write: Write os_file "byte list"
  | is_Close: Close os_file
  | is_MkdirTemp: MkdirTemp string string
  | is_WriteFile: WriteFile path "byte list" "32 word"
  | is_Remove: Remove path
  | is_RemoveAll: RemoveAll path

text \<open>
  One line of the trace: the call, the error and the path it returned, and the
  file system and the open handles right after it.
\<close>

datatype entry =
  Entry (e_call: call) (e_err: "error option") (e_ret: "path option")
        (e_fs: "(path \<times> node) list") (e_handles: "(path \<times> nat) list")

record os_state =
  fs :: "(path \<times> node) list"
  handles :: "(path \<times> nat) list"
  stdout :: "string list"
  trace :: "entry list"

text \<open>
  What the platform decides.  Each checked operation is called at most once by
  the program, so one fault per operation describes every behaviour.
\<close>

record os_env =
  initial_fs :: "(path \<times> node) list"
  temp_dir :: path
  file_names :: "nat list"
  dir_names :: "nat list"
  createtemp_fault :: "error option"
  write_fault :: "error option"
  mkdirtemp_fault :: "error option"
  writefile_fault :: "error option"

definition init :: "os_env \<Rightarrow> os_state" where
  "init env = \<lparr>fs = initial_fs env, handles = [], stdout = [], trace = []\<rparr>"

definition record_call :: "call \<Rightarrow> error option \<Rightarrow> path option \<Rightarrow> os_state \<Rightarrow> os_state" where
  "record_call c e r s =
     s\<lparr>trace := trace s @ [Entry c e r (fs s) (handles s)]\<rparr>"

subsection \<open>The platform operations\<close>

text \<open>
  Modelled from the spec: the operations of Go's standard library (\<^verbatim>\<open>os\<close>,
  \<^verbatim>\<open>fmt\<close>, \<^verbatim>\<open>path/filepath\<close>) are not part of the repository; section 4 of the
  specification describes them, and each definition below follows its
  sentence.  The file system is a flat association list from paths to nodes;
  a path lies within a directory when it extends the directory's path by a
  separator.
\<close>

text \<open>
  Modelled from the spec: a "uniquely named" entry takes the given prefix
  followed by a number the platform picks, written in decimal.
\<close>

definition digit :: "nat \<Rightarrow> char" where
  "digit d = ''0123456789'' ! d"

fun itoa :: "nat \<Rightarrow> string" where
  "itoa n = (if n < 10 then [digit n] else itoa (n div 10) @ [digit (n mod 10)])"

declare itoa.simps [simp del]

text \<open>
  Modelled from the spec: "Join a directory path and a file name to form a
  full path".  An empty directory is ignored and a separator is inserted
  unless the directory already ends with one.
\<close>

definition filepath_Join :: "path \<Rightarrow> string \<Rightarrow> path" where
  "filepath_Join d n =
     (if d = [] then n
      else if last d = CHR ''/'' then d @ n
      else d @ ''/'' @ n)"

text \<open>
  Modelled from the spec: the base name of a path is its last element;
  trailing separators are dropped first, the empty path gives a dot and a path
  of separators only gives one separator.
\<close>

definition filepath_Base :: "path \<Rightarrow> string" where
  "filepath_Base p =
     (if p = [] then ''.''
      else let q = rev (dropWhile (\<lambda>c. c = CHR ''/'') (rev p))
           in if q = [] then ''/''
              else rev (takeWhile (\<lambda>c. c \<noteq> CHR ''/'') (rev q)))"

definition within :: "path \<Rightarrow> path \<Rightarrow> bool" where
  "within d p = (p = d \<or> prefix (d @ ''/'') p)"

definition temp_name :: "path \<Rightarrow> string \<Rightarrow> nat \<Rightarrow> path" where
  "temp_name d pattern r = filepath_Join d (pattern @ itoa r)"

definition err_exhausted :: error where
  "err_exhausted = Error ''cannot allocate a unique name''"

text \<open>
  Modelled from the spec: "Create a uniquely named temporary file in the
  system's default temporary-storage location, optionally with a name prefix;
  returns an open writable handle and its resolved path; fails if the
  temporary location is unwritable or the OS cannot allocate a unique name."
  The first candidate whose name is free is taken; the file is created empty
  and its handle is opened at offset 0.
\<close>

definition os_CreateTemp ::
  "os_env \<Rightarrow> string \<Rightarrow> string \<Rightarrow> os_state \<Rightarrow> os_file option \<times> error option \<times> os_state" where
  "os_CreateTemp env dir pattern s =
     (let d = (if dir = [] then temp_dir env else dir);
          c = CreateTemp dir pattern
      in case createtemp_fault env of
           Some e \<Rightarrow> (None, Some e, record_call c (Some e) None s)
         | None \<Rightarrow>
             (case find (\<lambda>r. map_of (fs s) (temp_name d pattern r) = None) (file_names env) of
                None \<Rightarrow> (None, Some err_exhausted, record_call c (Some err_exhausted) None s)
              | Some r \<Rightarrow>
                  let n = temp_name d pattern r
                  in (Some (File n), None,
                      record_call c None (Some n)
                        (s\<lparr>fs := AList.update n (RegularFile []) (fs s),
                           handles := AList.update n 0 (handles s)\<rparr>))))"

text \<open>
  Modelled from the spec: "Create a uniquely named temporary directory in the
  same location; fails under the same conditions as file creation."
\<close>

definition os_MkdirTemp ::
  "os_env \<Rightarrow> string \<Rightarrow> string \<Rightarrow> os_state \<Rightarrow> path \<times> error option \<times> os_state" where
  "os_MkdirTemp env dir pattern s =
     (let d = (if dir = [] then temp_dir env else dir);
          c = MkdirTemp dir pattern
      in case mkdirtemp_fault env of
           Some e \<Rightarrow> ([], Some e, record_call c (Some e) None s)
         | None \<Rightarrow>
             (case find (\<lambda>r. map_of (fs s) (temp_name d pattern r) = None) (dir_names env) of
                None \<Rightarrow> ([], Some err_exhausted, record_call c (Some err_exhausted) None s)
              | Some r \<Rightarrow>
                  let n = temp_name d pattern r
                  in (n, None,
                      record_call c None (Some n)
                        (s\<lparr>fs := AList.update n Directory (fs s)\<rparr>))))"

text \<open>
  Modelled from the spec: "Write a fixed byte sequence to that handle; fails
  on I/O error (disk full, handle closed)."  The bytes go to the handle's
  offset, which then advances; a failed write changes nothing.
\<close>

definition file_Write ::
  "os_env \<Rightarrow> os_file \<Rightarrow> byte list \<Rightarrow> os_state \<Rightarrow> nat \<times> error option \<times> os_state" where
  "file_Write env f b s =
     (let c = Write f b
      in case write_fault env of
           Some e \<Rightarrow> (0, Some e, record_call c (Some e) None s)
         | None \<Rightarrow>
             (case (map_of (handles s) (Name f), map_of (fs s) (Name f)) of
                (Some off, Some (RegularFile old)) \<Rightarrow>
                  let new = take off old @ replicate (off - length old) 0 @ b
                              @ drop (off + length b) old
                  in (length b, None,
                      record_call c None None
                        (s\<lparr>fs := AList.update (Name f) (RegularFile new) (fs s),
                           handles := AList.update (Name f) (off + length b) (handles s)\<rparr>))
              | _ \<Rightarrow> (0, Some (Error ''file already closed''),
                       record_call c (Some (Error ''file already closed'')) None s)))"

text \<open>
  Modelled from the spec: "Close the handle so all pending writes are flushed
  and the file becomes safely removable".  Writes reach the file at once in
  this model, so closing only releases the handle.
\<close>

definition file_Close :: "os_file \<Rightarrow> os_state \<Rightarrow> error option \<times> os_state" where
  "file_Close f s =
     (case map_of (handles s) (Name f) of
        None \<Rightarrow> (Some (Error ''file already closed''),
                  record_call (Close f) (Some (Error ''file already closed'')) None s)
      | Some _ \<Rightarrow> (None,
                  record_call (Close f) None None
                    (s\<lparr>handles := AList.delete (Name f) (handles s)\<rparr>)))"

text \<open>
  Modelled from the spec: "write a byte sequence to a new file at that path;
  fails on I/O error."  The file is created or replaced; the permission bits
  are an argument of the call and are kept in the trace only.
\<close>

definition os_WriteFile ::
  "os_env \<Rightarrow> path \<Rightarrow> byte list \<Rightarrow> 32 word \<Rightarrow> os_state \<Rightarrow> error option \<times> os_state" where
  "os_WriteFile env name data perm s =
     (let c = WriteFile name data perm
      in case writefile_fault env of
           Some e \<Rightarrow> (Some e, record_call c (Some e) None s)
         | None \<Rightarrow>
             (case map_of (fs s) name of
                Some Directory \<Rightarrow> (Some (Error ''is a directory''),
                                   record_call c (Some (Error ''is a directory'')) None s)
              | _ \<Rightarrow> (None,
                       record_call c None None
                         (s\<lparr>fs := AList.update name (RegularFile data) (fs s)\<rparr>))))"

text \<open>
  Modelled from the spec: "Remove the temporary file", where "removing an open
  file on some OSes fails while it is still being written": a path with an
  open handle is not removed.  A directory is removed only when empty.
\<close>

definition os_Remove :: "path \<Rightarrow> os_state \<Rightarrow> error option \<times> os_state" where
  "os_Remove name s =
     (let c = Remove name;
          gone = record_call c None None (s\<lparr>fs := AList.delete name (fs s)\<rparr>)
      in if map_of (handles s) name \<noteq> None
         then (Some (Error ''file is in use''), record_call c (Some (Error ''file is in use'')) None s)
         else case map_of (fs s) name of
                None \<Rightarrow> (Some (Error ''no such file''),
                          record_call c (Some (Error ''no such file'')) None s)
              | Some (RegularFile _) \<Rightarrow> (None, gone)
              | Some Directory \<Rightarrow>
                  if list_ex (\<lambda>(p, _). prefix (name @ ''/'') p) (fs s)
                  then (Some (Error ''directory not empty''),
                        record_call c (Some (Error ''directory not empty'')) None s)
                  else (None, gone))"

text \<open>
  Modelled from the spec: "recursively remove the temporary directory and its
  contents".  Every entry at or below the path goes, except entries that have
  an open handle, which are kept and reported.
\<close>

definition os_RemoveAll :: "path \<Rightarrow> os_state \<Rightarrow> error option \<times> os_state" where
  "os_RemoveAll p s =
     (let busy = (\<lambda>q. within p q \<and> map_of (handles s) q \<noteq> None);
          e = (if list_ex (\<lambda>(q, _). busy q) (fs s) then Some (Error ''file is in use'') else None)
      in (e, record_call (RemoveAll p) e None
               (s\<lparr>fs := filter (\<lambda>(q, _). \<not> within p q \<or> busy q) (fs s)\<rparr>)))"

text \<open>
  Modelled from the spec: the program prints to standard output.  One call
  prints one line: its operands separated by single spaces.
\<close>

fun spaced :: "string list \<Rightarrow> string" where
  "spaced [] = []"
| "spaced [x] = x"
| "spaced (x # y # ys) = x @ '' '' @ spaced (y # ys)"

definition fmt_Println :: "string list \<Rightarrow> os_state \<Rightarrow> os_state" where
  "fmt_Println args s = record_call (Println args) None None (s\<lparr>stdout := stdout s @ [spaced args]\<rparr>)"

subsection \<open>The program\<close>

text \<open>
  \<^verbatim>\<open>func check(e error) { if e != nil { panic(e) } }\<close>:
  \<open>Inl\<close> is the panic, carrying the error as its value.
\<close>

definition check :: "error option \<Rightarrow> error + unit" where
  "check e = (if e \<noteq> None then Inl (the e) else Inr ())"

text \<open>
  A \<^verbatim>\<open>defer\<close> statement evaluates the arguments of its call at once and pushes
  the call; the pushed calls run last-in first-out when the function leaves,
  by return or by panic, and their results are discarded.
\<close>

datatype deferred =
    Defer_Remove path
  | Defer_Close os_file
  | Defer_RemoveAll path

fun call_deferred :: "deferred \<Rightarrow> os_state \<Rightarrow> os_state" where
  "call_deferred (Defer_Remove p) s = snd (os_Remove p s)"
| "call_deferred (Defer_Close f) s = snd (file_Close f s)"
| "call_deferred (Defer_RemoveAll p) s = snd (os_RemoveAll p s)"

fun run_defers :: "deferred list \<Rightarrow> os_state \<Rightarrow> os_state" where
  "run_defers [] s = s"
| "run_defers (d # ds) s = run_defers ds (call_deferred d s)"

definition nil_dereference :: error where
  "nil_dereference = Error ''invalid memory address or nil pointer dereference''"

text \<open>
  The statements of \<^verbatim>\<open>main\<close> in order.  The result is the panic value, if
  any, the stack of deferred calls (most recent first) and the state at the
  point where the body stops.  A nil \<^verbatim>\<open>f\<close> would make \<^verbatim>\<open>f.Name()\<close> panic.  The
  permission literal \<^verbatim>\<open>0666\<close> is octal, 438 in decimal.
\<close>

definition main_body :: "os_env \<Rightarrow> os_state \<Rightarrow> error option \<times> deferred list \<times> os_state" where
  "main_body env s0 =
     (case os_CreateTemp env [] ''sample'' s0 of (f, err, s1) \<Rightarrow>
      case check err of Inl p \<Rightarrow> (Some p, [], s1) | Inr _ \<Rightarrow>
      case f of None \<Rightarrow> (Some nil_dereference, [], s1) | Some f \<Rightarrow>
      let s2 = fmt_Println [''Temp file name:'', Name f] s1;
          ds1 = [Defer_Remove (Name f)];
          ds2 = Defer_Close f # ds1
      in
      case file_Write env f [1, 2, 3, 4] s2 of (_, err, s3) \<Rightarrow>
      case check err of Inl p \<Rightarrow> (Some p, ds2, s3) | Inr _ \<Rightarrow>
      case os_MkdirTemp env [] ''sampledir'' s3 of (dname, err, s4) \<Rightarrow>
      case check err of Inl p \<Rightarrow> (Some p, ds2, s4) | Inr _ \<Rightarrow>
      let s5 = fmt_Println [''Temp dir name:'', dname] s4;
          ds3 = Defer_RemoveAll dname # ds2;
          fname = filepath_Join dname ''file1''
      in
      case os_WriteFile env fname [1, 2] 438 s5 of (err, s6) \<Rightarrow>
      case check err of Inl p \<Rightarrow> (Some p, ds3, s6) | Inr _ \<Rightarrow>
      (None, ds3, s6))"

datatype outcome = Returned | Panicked error

definition main :: "os_env \<Rightarrow> outcome \<times> os_state" where
  "main env =
     (case main_body env (init env) of (p, ds, s) \<Rightarrow>
        (case p of None \<Rightarrow> Returned | Some e \<Rightarrow> Panicked e, run_defers ds s))"

subsection \<open>Reading a run\<close>

text \<open>
  The calls of a run in the order they were made, the paths the two creation
  calls returned, the calls that clean up (the three deferred ones), and the
  four calls whose error goes to \<^verbatim>\<open>check\<close>.
\<close>

definition calls :: "os_state \<Rightarrow> call list" where
  "calls s = map e_call (trace s)"

definition temp_file_of :: "os_state \<Rightarrow> path option" where
  "temp_file_of s =
     (case filter (\<lambda>e. is_CreateTemp (e_call e)) (trace s) of [] \<Rightarrow> None | e # _ \<Rightarrow> e_ret e)"

definition temp_dir_of :: "os_state \<Rightarrow> path option" where
  "temp_dir_of s =
     (case filter (\<lambda>e. is_MkdirTemp (e_call e)) (trace s) of [] \<Rightarrow> None | e # _ \<Rightarrow> e_ret e)"

definition is_cleanup :: "call \<Rightarrow> bool" where
  "is_cleanup c = (is_Remove c \<or> is_Close c \<or> is_RemoveAll c)"

definition is_checked :: "call \<Rightarrow> bool" where
  "is_checked c = (is_CreateTemp c \<or> is_Write c \<or> is_MkdirTemp c \<or> is_WriteFile c)"

definition checked :: "os_state \<Rightarrow> entry list" where
  "checked s = filter (\<lambda>e. is_checked (e_call e)) (trace s)"

text \<open>\<open>precedes a b xs\<close>: \<open>a\<close> occurs in \<open>xs\<close> and \<open>b\<close> occurs after its first occurrence.\<close>

definition precedes :: "'a \<Rightarrow> 'a \<Rightarrow> 'a list \<Rightarrow> bool" where
  "precedes a b xs = (b \<in> set (drop 1 (dropWhile (\<lambda>x. x \<noteq> a) xs)))"

text \<open>The error of the first checked call that failed, if any did.\<close>

definition first_error :: "os_state \<Rightarrow> error option" where
  "first_error s =
     (case filter (\<lambda>e. e_err e \<noteq> None) (checked s) of [] \<Rightarrow> None | e # _ \<Rightarrow> e_err e)"

text \<open>
  Three environments to run the program in: one where every operation
  succeeds, one where the write to the temporary file fails, and one where the
  temporary file cannot be created.
\<close>

definition example_env :: os_env where
  "example_env =
     \<lparr>initial_fs = [(''/tmp'', Directory)], temp_dir = ''/tmp'',
      file_names = [3], dir_names = [7],
      createtemp_fault = None, write_fault = None,
      mkdirtemp_fault = None, writefile_fault = None\<rparr>"

definition disk_full_env :: os_env where
  "disk_full_env =
     \<lparr>initial_fs = [(''/tmp'', Directory)], temp_dir = ''/tmp'',
      file_names = [3], dir_names = [7],
      createtemp_fault = None, write_fault = Some (Error ''no space left on device''),
      mkdirtemp_fault = None, writefile_fault = None\<rparr>"

definition unwritable_env :: os_env where
  "unwritable_env =
     \<lparr>initial_fs = [(''/tmp'', Directory)], temp_dir = ''/tmp'',
      file_names = [3], dir_names = [7],
      createtemp_fault = Some (Error ''permission denied''), write_fault = None,
      mkdirtemp_fault = None, writefile_fault = None\<rparr>"

subsection \<open>The states a run goes through\<close>

text \<open>What \<open>filepath_Join\<close> puts in front of the name it appends.\<close>

definition root :: "path \<Rightarrow> path" where
  "root d = (if d = [] then [] else if last d = CHR ''/'' then d else d @ ''/'')"

text \<open>
  Names for the paths, file systems and trace entries of a run in which the
  temporary file took candidate \<open>r1\<close> and the temporary directory candidate
  \<open>r2\<close>.  They are abbreviations only.
\<close>

abbreviation tmpfile :: "os_env \<Rightarrow> nat \<Rightarrow> path" where
  "tmpfile env r1 \<equiv> temp_name (temp_dir env) ''sample'' r1"

abbreviation tmpdir :: "os_env \<Rightarrow> nat \<Rightarrow> path" where
  "tmpdir env r2 \<equiv> temp_name (temp_dir env) ''sampledir'' r2"

abbreviation file1 :: "os_env \<Rightarrow> nat \<Rightarrow> path" where
  "file1 env r2 \<equiv> tmpdir env r2 @ ''/file1''"

abbreviation fs_created :: "os_env \<Rightarrow> nat \<Rightarrow> (path \<times> node) list" where
  "fs_created env r1 \<equiv> AList.update (tmpfile env r1) (RegularFile []) (initial_fs env)"

abbreviation fs_written :: "os_env \<Rightarrow> nat \<Rightarrow> (path \<times> node) list" where
  "fs_written env r1 \<equiv> AList.update (tmpfile env r1) (RegularFile [1, 2, 3, 4]) (initial_fs env)"

abbreviation fs_mkdir :: "os_env \<Rightarrow> nat \<Rightarrow> nat \<Rightarrow> (path \<times> node) list" where
  "fs_mkdir env r1 r2 \<equiv> AList.update (tmpdir env r2) Directory (fs_written env r1)"

abbreviation fs_file1 :: "os_env \<Rightarrow> nat \<Rightarrow> nat \<Rightarrow> (path \<times> node) list" where
  "fs_file1 env r1 r2 \<equiv> AList.update (file1 env r2) (RegularFile [1, 2]) (fs_mkdir env r1 r2)"

abbreviation cleared :: "path \<Rightarrow> (path \<times> node) list \<Rightarrow> (path \<times> node) list" where
  "cleared d F \<equiv> filter (\<lambda>(q, _). \<not> within d q) F"

abbreviation line1 :: "os_env \<Rightarrow> nat \<Rightarrow> string" where
  "line1 env r1 \<equiv> ''Temp file name: '' @ tmpfile env r1"

abbreviation line2 :: "os_env \<Rightarrow> nat \<Rightarrow> string" where
  "line2 env r2 \<equiv> ''Temp dir name: '' @ tmpdir env r2"

abbreviation E_create :: "os_env \<Rightarrow> nat \<Rightarrow> entry" where
  "E_create env r1 \<equiv>
     Entry (CreateTemp [] ''sample'') None (Some (tmpfile env r1))
       (fs_created env r1) [(tmpfile env r1, 0)]"

abbreviation E_print1 :: "os_env \<Rightarrow> nat \<Rightarrow> entry" where
  "E_print1 env r1 \<equiv>
     Entry (Println [''Temp file name:'', tmpfile env r1]) None None
       (fs_created env r1) [(tmpfile env r1, 0)]"

abbreviation E_write :: "os_env \<Rightarrow> nat \<Rightarrow> entry" where
  "E_write env r1 \<equiv>
     Entry (Write (File (tmpfile env r1)) [1, 2, 3, 4]) None None
       (fs_written env r1) [(tmpfile env r1, 4)]"

abbreviation E_mkdir :: "os_env \<Rightarrow> nat \<Rightarrow> nat \<Rightarrow> entry" where
  "E_mkdir env r1 r2 \<equiv>
     Entry (MkdirTemp [] ''sampledir'') None (Some (tmpdir env r2))
       (fs_mkdir env r1 r2) [(tmpfile env r1, 4)]"

abbreviation E_print2 :: "os_env \<Rightarrow> nat \<Rightarrow> nat \<Rightarrow> entry" where
  "E_print2 env r1 r2 \<equiv>
     Entry (Println [''Temp dir name:'', tmpdir env r2]) None None
       (fs_mkdir env r1 r2) [(tmpfile env r1, 4)]"

abbreviation E_writefile :: "os_env \<Rightarrow> nat \<Rightarrow> nat \<Rightarrow> entry" where
  "E_writefile env r1 r2 \<equiv>
     Entry (WriteFile (file1 env r2) [1, 2] 438) None None
       (fs_file1 env r1 r2) [(tmpfile env r1, 4)]"

abbreviation E_removeall :: "os_env \<Rightarrow> nat \<Rightarrow> nat \<Rightarrow> (path \<times> node) list \<Rightarrow> entry" where
  "E_removeall env r1 r2 F \<equiv>
     Entry (RemoveAll (tmpdir env r2)) None None (cleared (tmpdir env r2) F) [(tmpfile env r1, 4)]"

abbreviation E_close :: "os_env \<Rightarrow> nat \<Rightarrow> (path \<times> node) list \<Rightarrow> entry" where
  "E_close env r1 F \<equiv> Entry (Close (File (tmpfile env r1))) None None F []"

abbreviation E_remove :: "os_env \<Rightarrow> nat \<Rightarrow> (path \<times> node) list \<Rightarrow> entry" where
  "E_remove env r1 F \<equiv> Entry (Remove (tmpfile env r1)) None None (AList.delete (tmpfile env r1) F) []"

section \<open>Path names\<close>

lemma digit_in: "d < 10 \<Longrightarrow> digit d \<in> set ''0123456789''"
  unfolding digit_def by (rule nth_mem) simp

lemma itoa_digits: "set (itoa n) \<subseteq> set ''0123456789''"
proof (induction n rule: itoa.induct)
  case (1 n)
  show ?case
  proof (cases "n < 10")
    case True
    then show ?thesis using digit_in [of n] by (subst itoa.simps) simp
  next
    case False
    have "n mod 10 < 10" by simp
    then have "digit (n mod 10) \<in> set ''0123456789''" by (rule digit_in)
    with False 1 show ?thesis by (subst itoa.simps) simp
  qed
qed

lemma itoa_not_Nil: "itoa n \<noteq> []"
  by (subst itoa.simps) simp

lemma itoa_no_sep: "CHR ''/'' \<notin> set (itoa n)"
  using itoa_digits [of n] by auto

lemma itoa_no_d: "CHR ''d'' \<notin> set (itoa n)"
  using itoa_digits [of n] by auto

lemma last_itoa: "last (itoa n) \<noteq> CHR ''/''"
  using itoa_no_sep [of n] itoa_not_Nil [of n] last_in_set by metis

lemma Join_root: "filepath_Join d n = root d @ n"
  by (simp add: filepath_Join_def root_def)

lemma temp_name_root: "temp_name d pat r = root d @ pat @ itoa r"
  by (simp add: temp_name_def Join_root)

lemma temp_name_not_Nil: "temp_name d pat r \<noteq> []"
  by (simp add: temp_name_root itoa_not_Nil)

lemma last_temp_name: "last (temp_name d pat r) \<noteq> CHR ''/''"
  by (simp add: temp_name_root itoa_not_Nil last_itoa)

lemma Join_temp_name: "filepath_Join (temp_name d pat r) x = temp_name d pat r @ ''/'' @ x"
  by (simp add: filepath_Join_def temp_name_not_Nil last_temp_name)

lemma not_prefix_dir: "\<not> prefix (''sampledir'' @ xs) (''sample'' @ itoa r)"
proof
  assume "prefix (''sampledir'' @ xs) (''sample'' @ itoa r)"
  then have "prefix (''dir'' @ xs) (itoa r)" by simp
  then obtain zs where "itoa r = ''dir'' @ xs @ zs" by (auto simp: prefix_def)
  then have "CHR ''d'' \<in> set (itoa r)" by simp
  then show False using itoa_no_d by blast
qed

lemma file_not_within_dir:
  "\<not> within (temp_name t ''sampledir'' r2) (temp_name t ''sample'' r1)"
proof
  assume w: "within (temp_name t ''sampledir'' r2) (temp_name t ''sample'' r1)"
  have "\<exists>xs. prefix (''sampledir'' @ xs) (''sample'' @ itoa r1)"
  proof (cases "temp_name t ''sample'' r1 = temp_name t ''sampledir'' r2")
    case True
    then have "''sample'' @ itoa r1 = ''sampledir'' @ itoa r2"
      by (simp add: temp_name_root)
    then have "prefix (''sampledir'' @ itoa r2) (''sample'' @ itoa r1)" by simp
    then show ?thesis by blast
  next
    case False
    with w have "prefix (root t @ ''sampledir'' @ itoa r2 @ ''/'') (root t @ ''sample'' @ itoa r1)"
      by (simp add: within_def temp_name_root)
    then have "prefix (''sampledir'' @ itoa r2 @ ''/'') (''sample'' @ itoa r1)"
      by (simp only: same_prefix_prefix)
    then show ?thesis by blast
  qed
  then show False using not_prefix_dir by blast
qed

lemma file_not_dir: "temp_name t ''sample'' r1 \<noteq> temp_name t ''sampledir'' r2"
  using file_not_within_dir [of t r2 r1] by (auto simp: within_def)

lemma file_not_file1: "temp_name t ''sample'' r1 \<noteq> temp_name t ''sampledir'' r2 @ ''/'' @ x"
  using file_not_within_dir [of t r2 r1] by (auto simp: within_def)

lemma Base_temp_name:
  assumes "CHR ''/'' \<notin> set pat"
  shows "filepath_Base (temp_name d pat r) = pat @ itoa r"
proof -
  let ?b = "pat @ itoa r"
  have nosep: "CHR ''/'' \<notin> set ?b" using assms itoa_no_sep by simp
  have ne: "?b \<noteq> []" using itoa_not_Nil by simp
  have hd: "hd (rev ?b) \<noteq> CHR ''/''" using nosep ne by (metis hd_rev last_in_set)
  have dw: "dropWhile (\<lambda>c. c = CHR ''/'') (rev ?b @ rev (root d)) = rev ?b @ rev (root d)"
    using hd ne by (cases "rev ?b") auto
  have all: "\<And>x. x \<in> set (rev ?b) \<Longrightarrow> x \<noteq> CHR ''/''"
    using nosep by auto
  have "takeWhile (\<lambda>c. c \<noteq> CHR ''/'') (rev (root d)) = []"
  proof (cases "root d = []")
    case True
    then show ?thesis by simp
  next
    case False
    then have "last (root d) = CHR ''/''" by (auto simp: root_def split: if_splits)
    then have "hd (rev (root d)) = CHR ''/''" using False by (simp add: hd_rev)
    then show ?thesis using False by (cases "rev (root d)") auto
  qed
  then have tw: "takeWhile (\<lambda>c. c \<noteq> CHR ''/'') (rev ?b @ rev (root d)) = rev ?b"
    using takeWhile_append2 [of "rev ?b" "\<lambda>c. c \<noteq> CHR ''/''" "rev (root d)"] all by simp
  have "temp_name d pat r = root d @ ?b" by (simp add: temp_name_root)
  then show ?thesis using ne dw tw by (simp add: filepath_Base_def Let_def)
qed

section \<open>The platform operations, case by case\<close>

lemma os_CreateTemp_ok:
  assumes "createtemp_fault env = None"
    and "find (\<lambda>r. map_of (fs s) (temp_name (temp_dir env) pat r) = None) (file_names env) = Some r"
  shows "os_CreateTemp env [] pat s =
     (Some (File (temp_name (temp_dir env) pat r)), None,
      record_call (CreateTemp [] pat) None (Some (temp_name (temp_dir env) pat r))
        (s\<lparr>fs := AList.update (temp_name (temp_dir env) pat r) (RegularFile []) (fs s),
           handles := AList.update (temp_name (temp_dir env) pat r) 0 (handles s)\<rparr>))"
  using assms by (simp add: os_CreateTemp_def Let_def)

lemma os_CreateTemp_fault:
  assumes "createtemp_fault env = Some e"
  shows "os_CreateTemp env dir pat s = (None, Some e, record_call (CreateTemp dir pat) (Some e) None s)"
  using assms by (simp add: os_CreateTemp_def Let_def)

lemma os_CreateTemp_exhausted:
  assumes "createtemp_fault env = None"
    and "find (\<lambda>r. map_of (fs s) (temp_name (temp_dir env) pat r) = None) (file_names env) = None"
  shows "os_CreateTemp env [] pat s = (None, Some err_exhausted, record_call (CreateTemp [] pat) (Some err_exhausted) None s)"
  using assms by (simp add: os_CreateTemp_def Let_def)

lemma os_MkdirTemp_ok:
  assumes "mkdirtemp_fault env = None"
    and "find (\<lambda>r. map_of (fs s) (temp_name (temp_dir env) pat r) = None) (dir_names env) = Some r"
  shows "os_MkdirTemp env [] pat s =
     (temp_name (temp_dir env) pat r, None,
      record_call (MkdirTemp [] pat) None (Some (temp_name (temp_dir env) pat r))
        (s\<lparr>fs := AList.update (temp_name (temp_dir env) pat r) Directory (fs s)\<rparr>))"
  using assms by (simp add: os_MkdirTemp_def Let_def)

lemma os_MkdirTemp_fault:
  assumes "mkdirtemp_fault env = Some e"
  shows "os_MkdirTemp env dir pat s = ([], Some e, record_call (MkdirTemp dir pat) (Some e) None s)"
  using assms by (simp add: os_MkdirTemp_def Let_def)

lemma os_MkdirTemp_exhausted:
  assumes "mkdirtemp_fault env = None"
    and "find (\<lambda>r. map_of (fs s) (temp_name (temp_dir env) pat r) = None) (dir_names env) = None"
  shows "os_MkdirTemp env [] pat s = ([], Some err_exhausted, record_call (MkdirTemp [] pat) (Some err_exhausted) None s)"
  using assms by (simp add: os_MkdirTemp_def Let_def)

lemma file_Write_ok:
  assumes "write_fault env = None"
    and "map_of (handles s) (Name f) = Some 0"
    and "map_of (fs s) (Name f) = Some (RegularFile [])"
  shows "file_Write env f b s =
     (length b, None,
      record_call (Write f b) None None
        (s\<lparr>fs := AList.update (Name f) (RegularFile b) (fs s),
           handles := AList.update (Name f) (length b) (handles s)\<rparr>))"
  using assms by (simp add: file_Write_def)

lemma file_Write_fault:
  assumes "write_fault env = Some e"
  shows "file_Write env f b s = (0, Some e, record_call (Write f b) (Some e) None s)"
  using assms by (simp add: file_Write_def)

lemma os_WriteFile_ok:
  assumes "writefile_fault env = None" and "map_of (fs s) name \<noteq> Some Directory"
  shows "os_WriteFile env name data perm s =
     (None, record_call (WriteFile name data perm) None None
              (s\<lparr>fs := AList.update name (RegularFile data) (fs s)\<rparr>))"
  using assms by (simp add: os_WriteFile_def Let_def split: option.splits node.splits)

lemma os_WriteFile_fault:
  assumes "writefile_fault env = Some e"
  shows "os_WriteFile env name data perm s = (Some e, record_call (WriteFile name data perm) (Some e) None s)"
  using assms by (simp add: os_WriteFile_def)

lemma os_WriteFile_isdir:
  assumes "writefile_fault env = None" and "map_of (fs s) name = Some Directory"
  shows "os_WriteFile env name data perm s =
     (Some (Error ''is a directory''), record_call (WriteFile name data perm) (Some (Error ''is a directory'')) None s)"
  using assms by (simp add: os_WriteFile_def)

lemma file_Close_ok:
  assumes "map_of (handles s) (Name f) = Some off"
  shows "file_Close f s = (None, record_call (Close f) None None (s\<lparr>handles := AList.delete (Name f) (handles s)\<rparr>))"
  using assms by (simp add: file_Close_def)

lemma os_Remove_ok:
  assumes "map_of (handles s) name = None" and "map_of (fs s) name = Some (RegularFile b)"
  shows "os_Remove name s = (None, record_call (Remove name) None None (s\<lparr>fs := AList.delete name (fs s)\<rparr>))"
  using assms by (simp add: os_Remove_def)

lemma os_RemoveAll_ok:
  assumes "\<And>q. within p q \<Longrightarrow> map_of (handles s) q = None"
  shows "os_RemoveAll p s =
     (None, record_call (RemoveAll p) None None (s\<lparr>fs := filter (\<lambda>(q, _). \<not> within p q) (fs s)\<rparr>))"
proof -
  have "filter (\<lambda>(q, _). \<not> within p q \<or> within p q \<and> map_of (handles s) q \<noteq> None) (fs s)
      = filter (\<lambda>(q, _). \<not> within p q) (fs s)"
    by (rule filter_cong) (auto simp: assms)
  moreover have "\<not> list_ex (\<lambda>(q, _). within p q \<and> map_of (handles s) q \<noteq> None) (fs s)"
    by (auto simp: list_ex_iff assms)
  ultimately show ?thesis by (simp add: os_RemoveAll_def)
qed

section \<open>Running the program step by step\<close>

lemma map_of_cleared:
  "map_of (cleared d F) k = (if within d k then None else map_of F k)"
  by (induction F) auto

lemma check_simps: "check None = Inr ()" "check (Some e) = Inl e"
  by (simp_all add: check_def)

lemma run_createtemp_fails:
  assumes "createtemp_fault env = Some e
      \<or> createtemp_fault env = None
        \<and> find (\<lambda>r. map_of (initial_fs env) (tmpfile env r) = None) (file_names env) = None
        \<and> e = err_exhausted"
  shows "main env =
     (Panicked e,
      \<lparr>fs = initial_fs env, handles = [], stdout = [],
       trace = [Entry (CreateTemp [] ''sample'') (Some e) None (initial_fs env) []]\<rparr>)"
proof -
  have "os_CreateTemp env [] ''sample'' (init env)
      = (None, Some e, record_call (CreateTemp [] ''sample'') (Some e) None (init env))"
    using assms os_CreateTemp_fault [of env e "[]" "''sample''" "init env"]
      os_CreateTemp_exhausted [of env "init env" "''sample''"]
    by (auto simp: init_def)
  then show ?thesis
    by (simp add: main_def main_body_def check_simps init_def record_call_def)
qed

text \<open>The first three statements when the temporary file is created.\<close>

lemma created:
  assumes "createtemp_fault env = None"
    and "find (\<lambda>r. map_of (initial_fs env) (tmpfile env r) = None) (file_names env) = Some r1"
  shows "os_CreateTemp env [] ''sample'' (init env) =
     (Some (File (tmpfile env r1)), None,
      \<lparr>fs = fs_created env r1, handles = [(tmpfile env r1, 0)], stdout = [],
       trace = [E_create env r1]\<rparr>)"
  using os_CreateTemp_ok [of env "init env" "''sample''" r1] assms
  by (simp add: init_def record_call_def)

lemma written:
  assumes "write_fault env = None"
  shows "file_Write env (File (tmpfile env r1)) [1, 2, 3, 4]
     \<lparr>fs = fs_created env r1, handles = [(tmpfile env r1, 0)], stdout = out, trace = tr\<rparr>
   = (4, None,
      \<lparr>fs = fs_written env r1, handles = [(tmpfile env r1, 4)], stdout = out,
       trace = tr @ [E_write env r1]\<rparr>)"
  using assms
  by (subst file_Write_ok) (simp_all add: record_call_def update_conv')

lemma not_written:
  assumes "write_fault env = Some e"
  shows "file_Write env (File (tmpfile env r1)) [1, 2, 3, 4]
     \<lparr>fs = fs_created env r1, handles = [(tmpfile env r1, 0)], stdout = out, trace = tr\<rparr>
   = (0, Some e,
      \<lparr>fs = fs_created env r1, handles = [(tmpfile env r1, 0)], stdout = out,
       trace = tr @ [Entry (Write (File (tmpfile env r1)) [1, 2, 3, 4]) (Some e) None
                       (fs_created env r1) [(tmpfile env r1, 0)]]\<rparr>)"
  using assms
  by (subst file_Write_fault) (simp_all add: record_call_def)

text \<open>The deferred calls.\<close>

lemma closed_removed:
  assumes "map_of F (tmpfile env r1) = Some (RegularFile b)"
  shows "run_defers [Defer_Close (File (tmpfile env r1)), Defer_Remove (tmpfile env r1)]
     \<lparr>fs = F, handles = [(tmpfile env r1, k)], stdout = out, trace = tr\<rparr>
   = \<lparr>fs = AList.delete (tmpfile env r1) F, handles = [], stdout = out,
       trace = tr @ [E_close env r1 F, E_remove env r1 F]\<rparr>"
proof -
  let ?s = "\<lparr>fs = F, handles = [(tmpfile env r1, k)], stdout = out, trace = tr\<rparr>"
  let ?s' = "\<lparr>fs = F, handles = [], stdout = out, trace = tr @ [E_close env r1 F]\<rparr>"
  have c: "file_Close (File (tmpfile env r1)) ?s = (None, ?s')"
    by (subst file_Close_ok [where off = k]) (simp_all add: record_call_def)
  have r: "os_Remove (tmpfile env r1) ?s'
      = (None, \<lparr>fs = AList.delete (tmpfile env r1) F, handles = [], stdout = out,
                 trace = tr @ [E_close env r1 F, E_remove env r1 F]\<rparr>)"
    using assms by (subst os_Remove_ok [where b = b]) (simp_all add: record_call_def)
  show ?thesis by (simp add: c r)
qed

lemma removed_all:
  "os_RemoveAll (tmpdir env r2)
     \<lparr>fs = F, handles = [(tmpfile env r1, 4)], stdout = out, trace = tr\<rparr>
   = (None,
      \<lparr>fs = cleared (tmpdir env r2) F, handles = [(tmpfile env r1, 4)], stdout = out,
       trace = tr @ [E_removeall env r1 r2 F]\<rparr>)"
proof -
  have "\<And>q. within (tmpdir env r2) q \<Longrightarrow> map_of [(tmpfile env r1, 4::nat)] q = None"
    using file_not_within_dir [of "temp_dir env" r2 r1] by auto
  then show ?thesis
    by (simp add: os_RemoveAll_ok record_call_def)
qed

text \<open>The directory and the file in it.\<close>

lemma dir_candidates:
  "(\<lambda>r. map_of (fs_written env r1) (tmpdir env r) = None)
     = (\<lambda>r. map_of (initial_fs env) (tmpdir env r) = None)"
  by (simp add: update_conv' file_not_dir [symmetric])

lemma made:
  assumes "mkdirtemp_fault env = None"
    and "find (\<lambda>r. map_of (initial_fs env) (tmpdir env r) = None) (dir_names env) = Some r2"
  shows "os_MkdirTemp env [] ''sampledir''
     \<lparr>fs = fs_written env r1, handles = [(tmpfile env r1, 4)], stdout = out, trace = tr\<rparr>
   = (tmpdir env r2, None,
      \<lparr>fs = fs_mkdir env r1 r2, handles = [(tmpfile env r1, 4)], stdout = out,
       trace = tr @ [E_mkdir env r1 r2]\<rparr>)"
  using assms
  by (subst os_MkdirTemp_ok [where r = r2]) (simp_all add: record_call_def dir_candidates)

lemma not_made:
  assumes "mkdirtemp_fault env = Some e
      \<or> mkdirtemp_fault env = None
        \<and> find (\<lambda>r. map_of (initial_fs env) (tmpdir env r) = None) (dir_names env) = None
        \<and> e = err_exhausted"
  shows "os_MkdirTemp env [] ''sampledir''
     \<lparr>fs = fs_written env r1, handles = [(tmpfile env r1, 4)], stdout = out, trace = tr\<rparr>
   = ([], Some e,
      \<lparr>fs = fs_written env r1, handles = [(tmpfile env r1, 4)], stdout = out,
       trace = tr @ [Entry (MkdirTemp [] ''sampledir'') (Some e) None
                       (fs_written env r1) [(tmpfile env r1, 4)]]\<rparr>)"
proof -
  let ?s = "\<lparr>fs = fs_written env r1, handles = [(tmpfile env r1, 4)], stdout = out,
       trace = tr\<rparr>"
  have "os_MkdirTemp env [] ''sampledir'' ?s
      = ([], Some e, record_call (MkdirTemp [] ''sampledir'') (Some e) None ?s)"
    using assms os_MkdirTemp_fault [of env e "[]" "''sampledir''" ?s]
      os_MkdirTemp_exhausted [of env ?s "''sampledir''"]
    by (auto simp: dir_candidates)
  then show ?thesis by (simp add: record_call_def)
qed

lemma file1_lookup:
  "map_of (fs_mkdir env r1 r2) (file1 env r2) = map_of (initial_fs env) (file1 env r2)"
  using file_not_file1 [of "temp_dir env" r1 r2 "''file1''"]
  by (simp add: update_conv')

lemma file1_written:
  assumes "writefile_fault env = None"
    and "map_of (initial_fs env) (file1 env r2) \<noteq> Some Directory"
  shows "os_WriteFile env (file1 env r2) [1, 2] 438
     \<lparr>fs = fs_mkdir env r1 r2, handles = [(tmpfile env r1, 4)], stdout = out, trace = tr\<rparr>
   = (None,
      \<lparr>fs = fs_file1 env r1 r2, handles = [(tmpfile env r1, 4)], stdout = out,
       trace = tr @ [E_writefile env r1 r2]\<rparr>)"
  using assms
  by (subst os_WriteFile_ok) (simp_all add: record_call_def file1_lookup)

lemma file1_not_written:
  assumes "writefile_fault env = Some e
      \<or> writefile_fault env = None
        \<and> map_of (initial_fs env) (file1 env r2) = Some Directory
        \<and> e = Error ''is a directory''"
  shows "os_WriteFile env (file1 env r2) [1, 2] 438
     \<lparr>fs = fs_mkdir env r1 r2, handles = [(tmpfile env r1, 4)], stdout = out, trace = tr\<rparr>
   = (Some e,
      \<lparr>fs = fs_mkdir env r1 r2, handles = [(tmpfile env r1, 4)], stdout = out,
       trace = tr @ [Entry (WriteFile (file1 env r2) [1, 2] 438) (Some e) None
                       (fs_mkdir env r1 r2) [(tmpfile env r1, 4)]]\<rparr>)"
proof -
  let ?s = "\<lparr>fs = fs_mkdir env r1 r2, handles = [(tmpfile env r1, 4)], stdout = out,
       trace = tr\<rparr>"
  have "os_WriteFile env (file1 env r2) [1, 2] 438 ?s
      = (Some e, record_call (WriteFile (file1 env r2) [1, 2] 438) (Some e) None ?s)"
    using assms os_WriteFile_fault [of env e "file1 env r2" "[1, 2]" 438 ?s]
      os_WriteFile_isdir [of env ?s "file1 env r2" "[1, 2]" 438]
    by (auto simp: file1_lookup)
  then show ?thesis by (simp add: record_call_def)
qed

section \<open>The five ways a run can go\<close>

lemma run_write_fails:
  assumes "createtemp_fault env = None"
    and "find (\<lambda>r. map_of (initial_fs env) (tmpfile env r) = None) (file_names env) = Some r1"
    and "write_fault env = Some e"
  shows "main env =
     (Panicked e,
      \<lparr>fs = AList.delete (tmpfile env r1) (fs_created env r1), handles = [],
       stdout = [line1 env r1],
       trace = [E_create env r1, E_print1 env r1,
                Entry (Write (File (tmpfile env r1)) [1, 2, 3, 4]) (Some e) None
                  (fs_created env r1) [(tmpfile env r1, 0)],
                E_close env r1 (fs_created env r1), E_remove env r1 (fs_created env r1)]\<rparr>)"
proof -
  have body: "main_body env (init env) =
     (Some e, [Defer_Close (File (tmpfile env r1)), Defer_Remove (tmpfile env r1)],
      \<lparr>fs = fs_created env r1, handles = [(tmpfile env r1, 0)], stdout = [line1 env r1],
       trace = [E_create env r1, E_print1 env r1,
                Entry (Write (File (tmpfile env r1)) [1, 2, 3, 4]) (Some e) None
                  (fs_created env r1) [(tmpfile env r1, 0)]]\<rparr>)"
    unfolding main_body_def
    by (simp add: created [OF assms(1,2)] not_written [OF assms(3)] check_simps
        fmt_Println_def record_call_def)
  have "map_of (fs_created env r1) (tmpfile env r1) = Some (RegularFile [])"
    by (simp add: update_conv')
  from closed_removed [OF this] show ?thesis
    by (simp add: main_def body)
qed

lemma run_mkdirtemp_fails:
  assumes "createtemp_fault env = None"
    and "find (\<lambda>r. map_of (initial_fs env) (tmpfile env r) = None) (file_names env) = Some r1"
    and "write_fault env = None"
    and "mkdirtemp_fault env = Some e
      \<or> mkdirtemp_fault env = None
        \<and> find (\<lambda>r. map_of (initial_fs env) (tmpdir env r) = None) (dir_names env) = None
        \<and> e = err_exhausted"
  shows "main env =
     (Panicked e,
      \<lparr>fs = AList.delete (tmpfile env r1) (fs_written env r1), handles = [],
       stdout = [line1 env r1],
       trace = [E_create env r1, E_print1 env r1, E_write env r1,
                Entry (MkdirTemp [] ''sampledir'') (Some e) None
                  (fs_written env r1) [(tmpfile env r1, 4)],
                E_close env r1 (fs_written env r1), E_remove env r1 (fs_written env r1)]\<rparr>)"
proof -
  have body: "main_body env (init env) =
     (Some e, [Defer_Close (File (tmpfile env r1)), Defer_Remove (tmpfile env r1)],
      \<lparr>fs = fs_written env r1, handles = [(tmpfile env r1, 4)], stdout = [line1 env r1],
       trace = [E_create env r1, E_print1 env r1, E_write env r1,
                Entry (MkdirTemp [] ''sampledir'') (Some e) None
                  (fs_written env r1) [(tmpfile env r1, 4)]]\<rparr>)"
    unfolding main_body_def
    by (simp add: created [OF assms(1,2)] written [OF assms(3)]
        not_made [OF assms(4)] check_simps
        fmt_Println_def record_call_def)
  have "map_of (fs_written env r1) (tmpfile env r1) = Some (RegularFile [1, 2, 3, 4])"
    by (simp add: update_conv')
  from closed_removed [OF this] show ?thesis
    by (simp add: main_def body)
qed

lemma tmpfile_survives:
  "map_of (cleared (tmpdir env r2) (AList.update k v (fs_mkdir env r1 r2))) (tmpfile env r1)
     = (if tmpfile env r1 = k then Some v else Some (RegularFile [1, 2, 3, 4]))"
  by (simp add: map_of_cleared file_not_within_dir update_conv' file_not_dir)

lemma tmpfile_survives':
  "map_of (cleared (tmpdir env r2) (fs_mkdir env r1 r2)) (tmpfile env r1)
     = Some (RegularFile [1, 2, 3, 4])"
  by (simp add: map_of_cleared file_not_within_dir update_conv' file_not_dir)

lemma run_writefile_fails:
  assumes "createtemp_fault env = None"
    and "find (\<lambda>r. map_of (initial_fs env) (tmpfile env r) = None) (file_names env) = Some r1"
    and "write_fault env = None"
    and "mkdirtemp_fault env = None"
    and "find (\<lambda>r. map_of (initial_fs env) (tmpdir env r) = None) (dir_names env) = Some r2"
    and "writefile_fault env = Some e
      \<or> writefile_fault env = None
        \<and> map_of (initial_fs env) (file1 env r2) = Some Directory
        \<and> e = Error ''is a directory''"
  shows "main env =
     (Panicked e,
      \<lparr>fs = AList.delete (tmpfile env r1) (cleared (tmpdir env r2) (fs_mkdir env r1 r2)),
       handles = [], stdout = [line1 env r1, line2 env r2],
       trace = [E_create env r1, E_print1 env r1, E_write env r1, E_mkdir env r1 r2,
                E_print2 env r1 r2,
                Entry (WriteFile (file1 env r2) [1, 2] 438) (Some e) None
                  (fs_mkdir env r1 r2) [(tmpfile env r1, 4)],
                E_removeall env r1 r2 (fs_mkdir env r1 r2),
                E_close env r1 (cleared (tmpdir env r2) (fs_mkdir env r1 r2)),
                E_remove env r1 (cleared (tmpdir env r2) (fs_mkdir env r1 r2))]\<rparr>)"
proof -
  have body: "main_body env (init env) =
     (Some e,
      [Defer_RemoveAll (tmpdir env r2), Defer_Close (File (tmpfile env r1)),
       Defer_Remove (tmpfile env r1)],
      \<lparr>fs = fs_mkdir env r1 r2, handles = [(tmpfile env r1, 4)],
       stdout = [line1 env r1, line2 env r2],
       trace = [E_create env r1, E_print1 env r1, E_write env r1, E_mkdir env r1 r2,
                E_print2 env r1 r2,
                Entry (WriteFile (file1 env r2) [1, 2] 438) (Some e) None
                  (fs_mkdir env r1 r2) [(tmpfile env r1, 4)]]\<rparr>)"
    unfolding main_body_def
    by (simp add: created [OF assms(1,2)] written [OF assms(3)]
        made [OF assms(4,5)] Join_temp_name file1_not_written [OF assms(6)] check_simps
        fmt_Println_def record_call_def)
  from closed_removed [OF tmpfile_survives'] show ?thesis
    by (simp add: main_def body removed_all)
qed

lemma run_returns:
  assumes "createtemp_fault env = None"
    and "find (\<lambda>r. map_of (initial_fs env) (tmpfile env r) = None) (file_names env) = Some r1"
    and "write_fault env = None"
    and "mkdirtemp_fault env = None"
    and "find (\<lambda>r. map_of (initial_fs env) (tmpdir env r) = None) (dir_names env) = Some r2"
    and "writefile_fault env = None"
    and "map_of (initial_fs env) (file1 env r2) \<noteq> Some Directory"
  shows "main env =
     (Returned,
      \<lparr>fs = AList.delete (tmpfile env r1) (cleared (tmpdir env r2) (fs_file1 env r1 r2)),
       handles = [], stdout = [line1 env r1, line2 env r2],
       trace = [E_create env r1, E_print1 env r1, E_write env r1, E_mkdir env r1 r2,
                E_print2 env r1 r2, E_writefile env r1 r2,
                E_removeall env r1 r2 (fs_file1 env r1 r2),
                E_close env r1 (cleared (tmpdir env r2) (fs_file1 env r1 r2)),
                E_remove env r1 (cleared (tmpdir env r2) (fs_file1 env r1 r2))]\<rparr>)"
proof -
  have body: "main_body env (init env) =
     (None,
      [Defer_RemoveAll (tmpdir env r2), Defer_Close (File (tmpfile env r1)),
       Defer_Remove (tmpfile env r1)],
      \<lparr>fs = fs_file1 env r1 r2, handles = [(tmpfile env r1, 4)],
       stdout = [line1 env r1, line2 env r2],
       trace = [E_create env r1, E_print1 env r1, E_write env r1, E_mkdir env r1 r2,
                E_print2 env r1 r2, E_writefile env r1 r2]\<rparr>)"
    unfolding main_body_def
    by (simp add: created [OF assms(1,2)] written [OF assms(3)]
        made [OF assms(4,5)] Join_temp_name file1_written [OF assms(6,7)] check_simps
        fmt_Println_def record_call_def)
  have "map_of (cleared (tmpdir env r2) (fs_file1 env r1 r2)) (tmpfile env r1)
      = Some (RegularFile [1, 2, 3, 4])"
    using tmpfile_survives [of env r2 "file1 env r2" "RegularFile [1, 2]" r1]
      file_not_file1 [of "temp_dir env" r1 r2 "''file1''"] by simp
  from closed_removed [OF this] show ?thesis
    by (simp add: main_def body removed_all)
qed

lemma picked_free:
  "find (\<lambda>r. map_of F (g r) = None) rs = Some r \<Longrightarrow> map_of F (g r) = None"
  by (auto simp: find_Some_iff)

lemma run_cases [consumes 1, case_names createtemp_fails write_fails mkdirtemp_fails writefile_fails returns]:
  assumes "main env = (out, s)"
  obtains
    e where "out = Panicked e"
     "s =
      \<lparr>fs = initial_fs env, handles = [], stdout = [],
       trace = [Entry (CreateTemp [] ''sample'') (Some e) None (initial_fs env) []]\<rparr>"
  | e r1 where "map_of (initial_fs env) (tmpfile env r1) = None"
     "write_fault env = Some e"
     "out = Panicked e"
     "s =
      \<lparr>fs = AList.delete (tmpfile env r1) (fs_created env r1), handles = [],
       stdout = [line1 env r1],
       trace = [E_create env r1, E_print1 env r1,
                Entry (Write (File (tmpfile env r1)) [1, 2, 3, 4]) (Some e) None
                  (fs_created env r1) [(tmpfile env r1, 0)],
                E_close env r1 (fs_created env r1), E_remove env r1 (fs_created env r1)]\<rparr>"
  | e r1 where "map_of (initial_fs env) (tmpfile env r1) = None"
     "write_fault env = None"
     "out = Panicked e"
     "s =
      \<lparr>fs = AList.delete (tmpfile env r1) (fs_written env r1), handles = [],
       stdout = [line1 env r1],
       trace = [E_create env r1, E_print1 env r1, E_write env r1,
                Entry (MkdirTemp [] ''sampledir'') (Some e) None
                  (fs_written env r1) [(tmpfile env r1, 4)],
                E_close env r1 (fs_written env r1), E_remove env r1 (fs_written env r1)]\<rparr>"
  | e r1 r2 where "map_of (initial_fs env) (tmpfile env r1) = None"
     "map_of (initial_fs env) (tmpdir env r2) = None"
     "write_fault env = None"
     "out = Panicked e"
     "s =
      \<lparr>fs = AList.delete (tmpfile env r1) (cleared (tmpdir env r2) (fs_mkdir env r1 r2)),
       handles = [], stdout = [line1 env r1, line2 env r2],
       trace = [E_create env r1, E_print1 env r1, E_write env r1, E_mkdir env r1 r2,
                E_print2 env r1 r2,
                Entry (WriteFile (file1 env r2) [1, 2] 438) (Some e) None
                  (fs_mkdir env r1 r2) [(tmpfile env r1, 4)],
                E_removeall env r1 r2 (fs_mkdir env r1 r2),
                E_close env r1 (cleared (tmpdir env r2) (fs_mkdir env r1 r2)),
                E_remove env r1 (cleared (tmpdir env r2) (fs_mkdir env r1 r2))]\<rparr>"
  | r1 r2 where "map_of (initial_fs env) (tmpfile env r1) = None"
     "map_of (initial_fs env) (tmpdir env r2) = None"
     "write_fault env = None"
     "out = Returned"
     "s =
      \<lparr>fs = AList.delete (tmpfile env r1) (cleared (tmpdir env r2) (fs_file1 env r1 r2)),
       handles = [], stdout = [line1 env r1, line2 env r2],
       trace = [E_create env r1, E_print1 env r1, E_write env r1, E_mkdir env r1 r2,
                E_print2 env r1 r2, E_writefile env r1 r2,
                E_removeall env r1 r2 (fs_file1 env r1 r2),
                E_close env r1 (cleared (tmpdir env r2) (fs_file1 env r1 r2)),
                E_remove env r1 (cleared (tmpdir env r2) (fs_file1 env r1 r2))]\<rparr>"
proof -
  let ?pick1 = "find (\<lambda>r. map_of (initial_fs env) (tmpfile env r) = None) (file_names env)"
  let ?pick2 = "find (\<lambda>r. map_of (initial_fs env) (tmpdir env r) = None) (dir_names env)"
  show thesis
  proof (cases "createtemp_fault env")
    case (Some e)
    then show thesis using run_createtemp_fails [of env e] assms that(1) by simp
  next
    case c: None
    show thesis
    proof (cases ?pick1)
      case None
      then show thesis using c run_createtemp_fails [of env err_exhausted] assms that(1) by simp
    next
      case p1: (Some r1)
      note free1 = picked_free [OF p1]
      show thesis
      proof (cases "write_fault env")
        case (Some e)
        then show thesis using run_write_fails [OF c p1] free1 assms that(2) by simp
      next
        case w: None
        show thesis
        proof (cases "mkdirtemp_fault env")
          case (Some e)
          then show thesis using run_mkdirtemp_fails [OF c p1 w, of e] free1 w assms that(3) by simp
        next
          case m: None
          show thesis
          proof (cases ?pick2)
            case None
            then show thesis
              using m run_mkdirtemp_fails [OF c p1 w, of err_exhausted] free1 w assms that(3) by simp
          next
            case p2: (Some r2)
            note free2 = picked_free [OF p2]
            show thesis
            proof (cases "writefile_fault env")
              case (Some e)
              then show thesis
                using run_writefile_fails [OF c p1 w m p2, of e] free1 free2 w assms that(4) by simp
            next
              case wf: None
              show thesis
              proof (cases "map_of (initial_fs env) (file1 env r2) = Some Directory")
                case True
                then show thesis
                  using wf run_writefile_fails [OF c p1 w m p2, of "Error ''is a directory''"]
                    free1 free2 w assms that(4) by simp
              next
                case False
                then show thesis
                  using run_returns [OF c p1 w m p2 wf] free1 free2 w assms that(5) by simp
              qed
            qed
          qed
        qed
      qed
    qed
  qed
qed

section \<open>Three concrete runs\<close>

lemma example_names:
  "temp_name ''/tmp'' ''sample'' 3 = ''/tmp/sample3''"
  "temp_name ''/tmp'' ''sampledir'' 7 = ''/tmp/sampledir7''"
  by (simp_all add: temp_name_def filepath_Join_def itoa.simps digit_def)

lemma example_run:
  "main example_env =
     (Returned,
      \<lparr>fs = [(''/tmp'', Directory)], handles = [],
       stdout = [''Temp file name: /tmp/sample3'', ''Temp dir name: /tmp/sampledir7''],
       trace =
         [Entry (CreateTemp [] ''sample'') None (Some ''/tmp/sample3'')
            [(''/tmp'', Directory), (''/tmp/sample3'', RegularFile [])] [(''/tmp/sample3'', 0)],
          Entry (Println [''Temp file name:'', ''/tmp/sample3'']) None None
            [(''/tmp'', Directory), (''/tmp/sample3'', RegularFile [])] [(''/tmp/sample3'', 0)],
          Entry (Write (File ''/tmp/sample3'') [1, 2, 3, 4]) None None
            [(''/tmp'', Directory), (''/tmp/sample3'', RegularFile [1, 2, 3, 4])]
            [(''/tmp/sample3'', 4)],
          Entry (MkdirTemp [] ''sampledir'') None (Some ''/tmp/sampledir7'')
            [(''/tmp'', Directory), (''/tmp/sample3'', RegularFile [1, 2, 3, 4]),
             (''/tmp/sampledir7'', Directory)]
            [(''/tmp/sample3'', 4)],
          Entry (Println [''Temp dir name:'', ''/tmp/sampledir7'']) None None
            [(''/tmp'', Directory), (''/tmp/sample3'', RegularFile [1, 2, 3, 4]),
             (''/tmp/sampledir7'', Directory)]
            [(''/tmp/sample3'', 4)],
          Entry (WriteFile ''/tmp/sampledir7/file1'' [1, 2] 438) None None
            [(''/tmp'', Directory), (''/tmp/sample3'', RegularFile [1, 2, 3, 4]),
             (''/tmp/sampledir7'', Directory), (''/tmp/sampledir7/file1'', RegularFile [1, 2])]
            [(''/tmp/sample3'', 4)],
          Entry (RemoveAll ''/tmp/sampledir7'') None None
            [(''/tmp'', Directory), (''/tmp/sample3'', RegularFile [1, 2, 3, 4])]
            [(''/tmp/sample3'', 4)],
          Entry (Close (File ''/tmp/sample3'')) None None
            [(''/tmp'', Directory), (''/tmp/sample3'', RegularFile [1, 2, 3, 4])] [],
          Entry (Remove ''/tmp/sample3'') None None [(''/tmp'', Directory)] []]\<rparr>)"
  using run_returns [of example_env 3 7]
  by (simp add: example_env_def example_names within_def)

lemma disk_full_run:
  "main disk_full_env =
     (Panicked (Error ''no space left on device''),
      \<lparr>fs = [(''/tmp'', Directory)], handles = [],
       stdout = [''Temp file name: /tmp/sample3''],
       trace =
         [Entry (CreateTemp [] ''sample'') None (Some ''/tmp/sample3'')
            [(''/tmp'', Directory), (''/tmp/sample3'', RegularFile [])] [(''/tmp/sample3'', 0)],
          Entry (Println [''Temp file name:'', ''/tmp/sample3'']) None None
            [(''/tmp'', Directory), (''/tmp/sample3'', RegularFile [])] [(''/tmp/sample3'', 0)],
          Entry (Write (File ''/tmp/sample3'') [1, 2, 3, 4])
            (Some (Error ''no space left on device'')) None
            [(''/tmp'', Directory), (''/tmp/sample3'', RegularFile [])] [(''/tmp/sample3'', 0)],
          Entry (Close (File ''/tmp/sample3'')) None None
            [(''/tmp'', Directory), (''/tmp/sample3'', RegularFile [])] [],
          Entry (Remove ''/tmp/sample3'') None None [(''/tmp'', Directory)] []]\<rparr>)"
  using run_write_fails [of disk_full_env 3 "Error ''no space left on device''"]
  by (simp add: disk_full_env_def example_names)

lemma unwritable_run:
  "main unwritable_env =
     (Panicked (Error ''permission denied''),
      \<lparr>fs = [(''/tmp'', Directory)], handles = [], stdout = [],
       trace = [Entry (CreateTemp [] ''sample'') (Some (Error ''permission denied'')) None
                  [(''/tmp'', Directory)] []]\<rparr>)"
  using run_createtemp_fails [of unwritable_env "Error ''permission denied''"]
  by (simp add: unwritable_env_def)

section \<open>Facts used by the properties\<close>

lemma gone_after_cleanup:
  "map_of (AList.delete n (cleared d F)) p = (if p = n \<or> within d p then None else map_of F p)"
  by (simp add: delete_conv' map_of_cleared)

lemma removal_after_close:
  assumes tr: "tr = pre @ [Entry (Close (File n)) ec rc F [], Entry (Remove n) er rr F' H']"
    and pre: "\<forall>e \<in> set pre. \<not> is_Remove (e_call e)"
  shows "\<forall>i < length tr. \<forall>x. e_call (tr ! i) = Remove x \<longrightarrow>
           (\<exists>j < i. e_call (tr ! j) = Close (File x))
           \<and> 0 < i \<and> map_of (e_handles (tr ! (i - 1))) x = None"
proof (intro allI impI)
  fix i x
  assume i: "i < length tr" and rm: "e_call (tr ! i) = Remove x"
  have "\<not> i < length pre"
  proof
    assume "i < length pre"
    then have "tr ! i \<in> set pre" by (simp add: tr nth_append)
    with pre rm show False by auto
  qed
  moreover have "i \<noteq> length pre" using rm by (auto simp: tr nth_append)
  ultimately have i': "i = Suc (length pre)" using i by (simp add: tr)
  then have x: "x = n" using rm by (simp add: tr nth_append)
  have "e_call (tr ! length pre) = Close (File x)" by (simp add: tr x nth_append)
  moreover have "map_of (e_handles (tr ! length pre)) x = None" by (simp add: tr nth_append)
  ultimately show "(\<exists>j < i. e_call (tr ! j) = Close (File x))
      \<and> 0 < i \<and> map_of (e_handles (tr ! (i - 1))) x = None"
    using i' by auto
qed

lemma tmpfile_in_temp_dir:
  "filepath_Join (temp_dir env) (filepath_Base (tmpfile env r)) = tmpfile env r"
proof -
  have "filepath_Base (tmpfile env r) = ''sample'' @ itoa r"
    by (simp add: Base_temp_name)
  then show ?thesis by (simp add: temp_name_def)
qed

lemma tmpfile_base_prefix: "prefix ''sample'' (filepath_Base (tmpfile env r))"
  by (simp add: Base_temp_name)

section \<open>Properties of the program\<close>

lemmas reading = calls_def temp_file_of_def temp_dir_of_def is_cleanup_def is_checked_def
  checked_def first_error_def

text \<open>
  C1 (as amended).  The claim puts the removal of the temporary file before
  the removal of the temporary directory.  Deferred calls run last-in
  first-out, and the program defers the file's removal first, the close second
  and the directory's removal last.  So on a run that returns, the cleanup
  calls are, in this order: the recursive removal of the temporary directory,
  the close of the file handle, the removal of the temporary file.
\<close>

theorem cleanup_order:
  assumes "main env = (Returned, s)"
  shows "\<exists>n d. temp_file_of s = Some n \<and> temp_dir_of s = Some d
           \<and> filter is_cleanup (calls s) = [RemoveAll d, Close (File n), Remove n]"
  using assms
proof (cases rule: run_cases)
  case (returns r1 r2)
  show ?thesis unfolding returns by (simp add: reading)
qed simp_all

theorem cleanup_order_witness:
  "main example_env = (Returned, snd (main example_env))
   \<and> (\<exists>n d. temp_file_of (snd (main example_env)) = Some n
         \<and> temp_dir_of (snd (main example_env)) = Some d
         \<and> filter is_cleanup (calls (snd (main example_env)))
             = [RemoveAll d, Close (File n), Remove n])"
proof -
  have h: "main example_env = (Returned, snd (main example_env))"
    by (simp add: example_run)
  show ?thesis using h cleanup_order [OF h] by simp
qed

text \<open>
  C1 as stated fails: in the run of \<open>example_env\<close>, which returns, the removal of
  the temporary file does not come before the removal of the temporary
  directory; it comes after it.
\<close>

theorem file_removed_first_counterexample:
  "fst (main example_env) = Returned
   \<and> temp_file_of (snd (main example_env)) = Some ''/tmp/sample3''
   \<and> temp_dir_of (snd (main example_env)) = Some ''/tmp/sampledir7''
   \<and> \<not> precedes (Remove ''/tmp/sample3'') (RemoveAll ''/tmp/sampledir7'')
         (calls (snd (main example_env)))
   \<and> precedes (RemoveAll ''/tmp/sampledir7'') (Remove ''/tmp/sample3'')
         (calls (snd (main example_env)))"
  by (simp add: example_run reading precedes_def)

text \<open>
  C2 (as amended).  On every exit path, by return or by panic, the cleanup
  whose \<^verbatim>\<open>defer\<close> statement was reached is performed.  If the temporary file
  was created, its removal is performed and succeeds, and the path no longer
  exists at exit.  If the temporary directory was created, its recursive
  removal is performed and succeeds, and neither the directory nor anything
  inside it exists at exit.  If the creation of the file failed, no cleanup
  call is made at all; if the directory was not created, no recursive removal
  is made.  No handle is left open.
\<close>

theorem cleanup_on_every_exit:
  assumes "main env = (out, s)"
  shows "(\<forall>n. temp_file_of s = Some n \<longrightarrow>
            (\<exists>e \<in> set (trace s). e_call e = Remove n \<and> e_err e = None)
            \<and> map_of (fs s) n = None)
       \<and> (\<forall>d. temp_dir_of s = Some d \<longrightarrow>
            (\<exists>e \<in> set (trace s). e_call e = RemoveAll d \<and> e_err e = None)
            \<and> (\<forall>p. within d p \<longrightarrow> map_of (fs s) p = None))
       \<and> (temp_file_of s = None \<longrightarrow> filter is_cleanup (calls s) = [])
       \<and> (temp_dir_of s = None \<longrightarrow> filter is_RemoveAll (calls s) = [])
       \<and> handles s = []"
  using assms
proof (cases rule: run_cases)
  case (createtemp_fails e)
  show ?thesis unfolding createtemp_fails by (simp add: reading)
next
  case (write_fails e r1)
  show ?thesis unfolding write_fails by (simp add: reading delete_conv')
next
  case (mkdirtemp_fails e r1)
  show ?thesis unfolding mkdirtemp_fails by (simp add: reading delete_conv')
next
  case (writefile_fails e r1 r2)
  show ?thesis unfolding writefile_fails by (simp add: reading gone_after_cleanup)
next
  case (returns r1 r2)
  show ?thesis unfolding returns by (simp add: reading gone_after_cleanup)
qed

theorem cleanup_on_every_exit_witness:
  "main example_env = (Returned, snd (main example_env))
   \<and> temp_file_of (snd (main example_env)) = Some ''/tmp/sample3''
   \<and> (\<exists>e \<in> set (trace (snd (main example_env))).
         e_call e = Remove ''/tmp/sample3'' \<and> e_err e = None)
   \<and> map_of (fs (snd (main example_env))) ''/tmp/sample3'' = None
   \<and> temp_dir_of (snd (main example_env)) = Some ''/tmp/sampledir7''
   \<and> (\<exists>e \<in> set (trace (snd (main example_env))).
         e_call e = RemoveAll ''/tmp/sampledir7'' \<and> e_err e = None)
   \<and> within ''/tmp/sampledir7'' ''/tmp/sampledir7/file1''
   \<and> map_of (fs (snd (main example_env))) ''/tmp/sampledir7/file1'' = None
   \<and> temp_dir_of (snd (main disk_full_env)) = None
   \<and> filter is_RemoveAll (calls (snd (main disk_full_env))) = []
   \<and> temp_file_of (snd (main unwritable_env)) = None
   \<and> filter is_cleanup (calls (snd (main unwritable_env))) = []"
proof -
  have h: "main example_env = (Returned, snd (main example_env))"
    by (simp add: example_run)
  have f: "temp_file_of (snd (main example_env)) = Some ''/tmp/sample3''"
    and d: "temp_dir_of (snd (main example_env)) = Some ''/tmp/sampledir7''"
    by (simp_all add: example_run reading)
  have w: "within ''/tmp/sampledir7'' ''/tmp/sampledir7/file1''"
    by (simp add: within_def)
  have h': "main disk_full_env = (fst (main disk_full_env), snd (main disk_full_env))"
    by simp
  have d': "temp_dir_of (snd (main disk_full_env)) = None"
    by (simp add: disk_full_run reading)
  have h'': "main unwritable_env = (fst (main unwritable_env), snd (main unwritable_env))"
    by simp
  have f'': "temp_file_of (snd (main unwritable_env)) = None"
    by (simp add: unwritable_run reading)
  note t = cleanup_on_every_exit [OF h]
  note t' = cleanup_on_every_exit [OF h']
  note t'' = cleanup_on_every_exit [OF h'']
  from t [THEN conjunct1, rule_format, OF f]
    t [THEN conjunct2, THEN conjunct1, rule_format, OF d]
    t' [THEN conjunct2, THEN conjunct2, THEN conjunct2, THEN conjunct1, rule_format, OF d']
    t'' [THEN conjunct2, THEN conjunct2, THEN conjunct1, rule_format, OF f'']
    h f d w d' f''
  show ?thesis by simp
qed

text \<open>
  C2 as stated fails: in the run of \<open>disk_full_env\<close> the write to the temporary
  file fails, the program panics before \<^verbatim>\<open>os.MkdirTemp\<close> and before the third
  \<^verbatim>\<open>defer\<close>, and the only cleanup calls are the close and the removal of the
  file: no recursive removal is performed on this exit path.  In the run of
  \<open>unwritable_env\<close> the creation of the temporary file fails and the program
  panics before any \<^verbatim>\<open>defer\<close>: no cleanup call is performed at all.
\<close>

theorem cleanup_both_counterexample:
  "fst (main disk_full_env) = Panicked (Error ''no space left on device'')
   \<and> filter is_cleanup (calls (snd (main disk_full_env)))
       = [Close (File ''/tmp/sample3''), Remove ''/tmp/sample3'']
   \<and> \<not> list_ex is_RemoveAll (calls (snd (main disk_full_env)))
   \<and> fst (main unwritable_env) = Panicked (Error ''permission denied'')
   \<and> filter is_cleanup (calls (snd (main unwritable_env))) = []"
  by (simp add: disk_full_run unwritable_run reading)

text \<open>
  C3.  On every exit path on which the temporary file was created (so both
  \<^verbatim>\<open>defer os.Remove(f.Name())\<close> and \<^verbatim>\<open>defer f.Close()\<close> were reached), the close
  of the handle comes before the removal of the file.  And whenever a removal
  is attempted at all, a close of that file's handle occurred earlier in the
  run and the handle is not open at the moment of the attempt.
\<close>

theorem close_before_remove:
  assumes "main env = (out, s)"
  shows "(\<forall>n. temp_file_of s = Some n \<longrightarrow> precedes (Close (File n)) (Remove n) (calls s))
       \<and> (\<forall>i < length (trace s). \<forall>x. e_call (trace s ! i) = Remove x \<longrightarrow>
             (\<exists>j < i. e_call (trace s ! j) = Close (File x))
             \<and> 0 < i \<and> map_of (e_handles (trace s ! (i - 1))) x = None)"
  using assms
proof (cases rule: run_cases)
  case (createtemp_fails e)
  show ?thesis unfolding createtemp_fails by (simp add: reading precedes_def)
next
  case (write_fails e r1)
  have tr: "trace s = [E_create env r1, E_print1 env r1,
      Entry (Write (File (tmpfile env r1)) [1, 2, 3, 4]) (Some e) None
        (fs_created env r1) [(tmpfile env r1, 0)]]
      @ [E_close env r1 (fs_created env r1), E_remove env r1 (fs_created env r1)]"
    unfolding write_fails by simp
  have "\<forall>n. temp_file_of s = Some n \<longrightarrow> precedes (Close (File n)) (Remove n) (calls s)"
    by (simp add: tr reading precedes_def)
  moreover note removal_after_close [OF tr]
  ultimately show ?thesis by simp
next
  case (mkdirtemp_fails e r1)
  have tr: "trace s = [E_create env r1, E_print1 env r1, E_write env r1,
      Entry (MkdirTemp [] ''sampledir'') (Some e) None (fs_written env r1) [(tmpfile env r1, 4)]]
      @ [E_close env r1 (fs_written env r1), E_remove env r1 (fs_written env r1)]"
    unfolding mkdirtemp_fails by simp
  have "\<forall>n. temp_file_of s = Some n \<longrightarrow> precedes (Close (File n)) (Remove n) (calls s)"
    by (simp add: tr reading precedes_def)
  moreover note removal_after_close [OF tr]
  ultimately show ?thesis by simp
next
  case (writefile_fails e r1 r2)
  have tr: "trace s = [E_create env r1, E_print1 env r1, E_write env r1,
      E_mkdir env r1 r2, E_print2 env r1 r2,
      Entry (WriteFile (file1 env r2) [1, 2] 438) (Some e) None
        (fs_mkdir env r1 r2) [(tmpfile env r1, 4)],
      E_removeall env r1 r2 (fs_mkdir env r1 r2)]
      @ [E_close env r1 (cleared (tmpdir env r2) (fs_mkdir env r1 r2)),
         E_remove env r1 (cleared (tmpdir env r2) (fs_mkdir env r1 r2))]"
    unfolding writefile_fails by simp
  have "\<forall>n. temp_file_of s = Some n \<longrightarrow> precedes (Close (File n)) (Remove n) (calls s)"
    by (simp add: tr reading precedes_def)
  moreover note removal_after_close [OF tr]
  ultimately show ?thesis by simp
next
  case (returns r1 r2)
  have tr: "trace s = [E_create env r1, E_print1 env r1, E_write env r1,
      E_mkdir env r1 r2, E_print2 env r1 r2, E_writefile env r1 r2,
      E_removeall env r1 r2 (fs_file1 env r1 r2)]
      @ [E_close env r1 (cleared (tmpdir env r2) (fs_file1 env r1 r2)),
         E_remove env r1 (cleared (tmpdir env r2) (fs_file1 env r1 r2))]"
    unfolding returns by simp
  have "\<forall>n. temp_file_of s = Some n \<longrightarrow> precedes (Close (File n)) (Remove n) (calls s)"
    by (simp add: tr reading precedes_def)
  moreover note removal_after_close [OF tr]
  ultimately show ?thesis by simp
qed

theorem close_before_remove_witness:
  "main example_env = (Returned, snd (main example_env))
   \<and> temp_file_of (snd (main example_env)) = Some ''/tmp/sample3''
   \<and> precedes (Close (File ''/tmp/sample3'')) (Remove ''/tmp/sample3'')
        (calls (snd (main example_env)))
   \<and> 8 < length (trace (snd (main example_env)))
   \<and> e_call (trace (snd (main example_env)) ! 8) = Remove ''/tmp/sample3''
   \<and> (\<exists>j < 8. e_call (trace (snd (main example_env)) ! j) = Close (File ''/tmp/sample3''))
   \<and> map_of (e_handles (trace (snd (main example_env)) ! (8 - 1))) ''/tmp/sample3'' = None"
proof -
  have h: "main example_env = (Returned, snd (main example_env))"
    by (simp add: example_run)
  have f: "temp_file_of (snd (main example_env)) = Some ''/tmp/sample3''"
    by (simp add: example_run reading)
  have l: "8 < length (trace (snd (main example_env)))"
    by (simp add: example_run)
  have r: "e_call (trace (snd (main example_env)) ! 8) = Remove ''/tmp/sample3''"
    by (simp add: example_run)
  note t = close_before_remove [OF h]
  from t [THEN conjunct1, rule_format, OF f] t [THEN conjunct2, rule_format, OF l r] h f l r
  show ?thesis by simp
qed

text \<open>
  C4.  Whenever the write to the temporary file succeeds, the bytes written
  are 1, 2, 3, 4, the file holds exactly these four bytes right after the
  write, the handle is closed later in the run, and when it is closed (the
  close succeeds and releases the handle) the file on disk still holds exactly
  the bytes 1, 2, 3, 4.
\<close>

theorem written_bytes_on_disk:
  assumes "main env = (out, s)"
  shows "\<forall>w \<in> set (trace s). \<forall>f b. e_call w = Write f b \<and> e_err w = None \<longrightarrow>
           b = [1, 2, 3, 4]
           \<and> map_of (e_fs w) (Name f) = Some (RegularFile [1, 2, 3, 4])
           \<and> (\<exists>c \<in> set (trace s). e_call c = Close f)
           \<and> (\<forall>c \<in> set (trace s). e_call c = Close f \<longrightarrow>
                 e_err c = None \<and> map_of (e_handles c) (Name f) = None
                 \<and> map_of (e_fs c) (Name f) = Some (RegularFile [1, 2, 3, 4]))"
  using assms
proof (cases rule: run_cases)
  case (createtemp_fails e)
  show ?thesis unfolding createtemp_fails by simp
next
  case (write_fails e r1)
  show ?thesis unfolding write_fails by simp
next
  case (mkdirtemp_fails e r1)
  show ?thesis unfolding mkdirtemp_fails by (simp add: update_conv')
next
  case (writefile_fails e r1 r2)
  show ?thesis unfolding writefile_fails by (simp add: update_conv' tmpfile_survives')
next
  case (returns r1 r2)
  have "map_of (cleared (tmpdir env r2) (fs_file1 env r1 r2)) (tmpfile env r1)
      = Some (RegularFile [1, 2, 3, 4])"
    using tmpfile_survives [of env r2 "file1 env r2" "RegularFile [1, 2]" r1]
      file_not_file1 [of "temp_dir env" r1 r2 "''file1''"] by simp
  then show ?thesis unfolding returns by (simp add: update_conv')
qed

theorem written_bytes_on_disk_witness:
  "main example_env = (Returned, snd (main example_env))
   \<and> (\<exists>w \<in> set (trace (snd (main example_env))).
         e_call w = Write (File ''/tmp/sample3'') [1, 2, 3, 4] \<and> e_err w = None)
   \<and> (\<exists>c \<in> set (trace (snd (main example_env))).
         e_call c = Close (File ''/tmp/sample3'')
         \<and> map_of (e_fs c) ''/tmp/sample3'' = Some (RegularFile [1, 2, 3, 4]))"
proof -
  have h: "main example_env = (Returned, snd (main example_env))"
    by (simp add: example_run)
  have w: "Entry (Write (File ''/tmp/sample3'') [1, 2, 3, 4]) None None
            [(''/tmp'', Directory), (''/tmp/sample3'', RegularFile [1, 2, 3, 4])]
            [(''/tmp/sample3'', 4)] \<in> set (trace (snd (main example_env)))"
    by (simp add: example_run)
  from written_bytes_on_disk [OF h, THEN bspec, OF w] h w show ?thesis
    by (simp add: example_run)
qed

text \<open>
  C5.  Every call of \<^verbatim>\<open>os.WriteFile\<close> is made with the path that joins the
  temporary directory's path and the name \<^verbatim>\<open>file1\<close>, and with the bytes 1, 2;
  when the call succeeds, the file at that path holds exactly the bytes 1, 2
  right after it.  A run that returns has made such a call with success.
\<close>

theorem file1_contents:
  assumes "main env = (out, s)"
  shows "(\<forall>e \<in> set (trace s). \<forall>p b m. e_call e = WriteFile p b m \<longrightarrow>
            (\<exists>d. temp_dir_of s = Some d \<and> p = filepath_Join d ''file1'')
            \<and> b = [1, 2]
            \<and> (e_err e = None \<longrightarrow> map_of (e_fs e) p = Some (RegularFile [1, 2])))
       \<and> (out = Returned \<longrightarrow>
            (\<exists>e \<in> set (trace s). is_WriteFile (e_call e) \<and> e_err e = None))"
  using assms
proof (cases rule: run_cases)
  case (createtemp_fails e)
  show ?thesis unfolding createtemp_fails by (simp add: reading)
next
  case (write_fails e r1)
  show ?thesis unfolding write_fails by (simp add: reading)
next
  case (mkdirtemp_fails e r1)
  show ?thesis unfolding mkdirtemp_fails by (simp add: reading)
next
  case (writefile_fails e r1 r2)
  show ?thesis unfolding writefile_fails by (simp add: reading Join_temp_name)
next
  case (returns r1 r2)
  show ?thesis unfolding returns by (simp add: reading Join_temp_name update_conv')
qed

theorem file1_contents_witness:
  "main example_env = (Returned, snd (main example_env))
   \<and> (\<exists>e \<in> set (trace (snd (main example_env))).
         e_call e = WriteFile ''/tmp/sampledir7/file1'' [1, 2] 438 \<and> e_err e = None
         \<and> temp_dir_of (snd (main example_env)) = Some ''/tmp/sampledir7''
         \<and> map_of (e_fs e) ''/tmp/sampledir7/file1'' = Some (RegularFile [1, 2]))"
proof -
  have h: "main example_env = (Returned, snd (main example_env))"
    by (simp add: example_run)
  have w: "Entry (WriteFile ''/tmp/sampledir7/file1'' [1, 2] 438) None None
            [(''/tmp'', Directory), (''/tmp/sample3'', RegularFile [1, 2, 3, 4]),
             (''/tmp/sampledir7'', Directory), (''/tmp/sampledir7/file1'', RegularFile [1, 2])]
            [(''/tmp/sample3'', 4)] \<in> set (trace (snd (main example_env)))"
    by (simp add: example_run)
  from file1_contents [OF h, THEN conjunct1, THEN bspec, OF w] h w show ?thesis
    by (simp add: example_run reading filepath_Join_def)
qed

text \<open>
  C6.  \<^verbatim>\<open>check\<close> panics, with the error as the panic value, exactly when the
  error is non-nil, and returns exactly when it is nil.  For the program: the
  run ends in a panic with the error of the first checked call that failed, or
  returns when none failed; a failed checked call is the last checked call of
  the run (nothing is attempted after it except the deferred cleanup), a run
  that returns has made all four checked calls, and each of the four checked
  operations is called at most once (no retry).
\<close>

theorem check_fails_fast:
  assumes "main env = (out, s)"
  shows "(\<forall>e x. (check e = Inl x) = (e = Some x))
       \<and> (\<forall>e. (check e = Inr ()) = (e = None))
       \<and> out = (case first_error s of None \<Rightarrow> Returned | Some x \<Rightarrow> Panicked x)
       \<and> (\<forall>e \<in> set (butlast (checked s)). e_err e = None)
       \<and> (out = Returned \<longrightarrow> length (checked s) = 4)
       \<and> length (filter is_CreateTemp (calls s)) \<le> 1
       \<and> length (filter is_Write (calls s)) \<le> 1
       \<and> length (filter is_MkdirTemp (calls s)) \<le> 1
       \<and> length (filter is_WriteFile (calls s)) \<le> 1"
proof -
  have c: "(\<forall>e x. (check e = Inl x) = (e = Some x)) \<and> (\<forall>e. (check e = Inr ()) = (e = None))"
    by (auto simp: check_def)
  have "out = (case first_error s of None \<Rightarrow> Returned | Some x \<Rightarrow> Panicked x)
       \<and> (\<forall>e \<in> set (butlast (checked s)). e_err e = None)
       \<and> (out = Returned \<longrightarrow> length (checked s) = 4)
       \<and> length (filter is_CreateTemp (calls s)) \<le> 1
       \<and> length (filter is_Write (calls s)) \<le> 1
       \<and> length (filter is_MkdirTemp (calls s)) \<le> 1
       \<and> length (filter is_WriteFile (calls s)) \<le> 1"
    using assms
  proof (cases rule: run_cases)
    case (createtemp_fails e)
    show ?thesis unfolding createtemp_fails by (simp add: reading)
  next
    case (write_fails e r1)
    show ?thesis unfolding write_fails by (simp add: reading)
  next
    case (mkdirtemp_fails e r1)
    show ?thesis unfolding mkdirtemp_fails by (simp add: reading)
  next
    case (writefile_fails e r1 r2)
    show ?thesis unfolding writefile_fails by (simp add: reading)
  next
    case (returns r1 r2)
    show ?thesis unfolding returns by (simp add: reading)
  qed
  with c show ?thesis by blast
qed

theorem check_fails_fast_witness:
  "main disk_full_env = (Panicked (Error ''no space left on device''), snd (main disk_full_env))
   \<and> first_error (snd (main disk_full_env)) = Some (Error ''no space left on device'')
   \<and> map e_call (butlast (checked (snd (main disk_full_env)))) = [CreateTemp [] ''sample'']
   \<and> map e_err (butlast (checked (snd (main disk_full_env)))) = [None]
   \<and> check (Some (Error ''no space left on device'')) = Inl (Error ''no space left on device'')
   \<and> check None = Inr ()
   \<and> main example_env = (Returned, snd (main example_env))
   \<and> first_error (snd (main example_env)) = None
   \<and> length (checked (snd (main example_env))) = 4"
proof -
  have h: "main disk_full_env
      = (Panicked (Error ''no space left on device''), snd (main disk_full_env))"
    by (simp add: disk_full_run)
  have f: "first_error (snd (main disk_full_env)) = Some (Error ''no space left on device'')"
    and b: "map e_call (butlast (checked (snd (main disk_full_env)))) = [CreateTemp [] ''sample'']"
    and n: "map e_err (butlast (checked (snd (main disk_full_env)))) = [None]"
    by (simp_all add: disk_full_run reading)
  have h': "main example_env = (Returned, snd (main example_env))"
    by (simp add: example_run)
  have f': "first_error (snd (main example_env)) = None"
    by (simp add: example_run reading)
  from check_fails_fast [OF h] check_fails_fast [OF h'] h f b n h' f' show ?thesis by simp
qed

text \<open>
  C7.  A run that returns has printed exactly two lines, in this order: the
  line for the temporary file, which is the label \<^verbatim>\<open>Temp file name:\<close>, a space
  and the path that \<^verbatim>\<open>os.CreateTemp\<close> returned, then the line for the temporary
  directory, which is the label \<^verbatim>\<open>Temp dir name:\<close>, a space and the path that
  \<^verbatim>\<open>os.MkdirTemp\<close> returned.
\<close>

theorem prints_two_paths:
  assumes "main env = (Returned, s)"
  shows "\<exists>n d. temp_file_of s = Some n \<and> temp_dir_of s = Some d
           \<and> stdout s = [''Temp file name: '' @ n, ''Temp dir name: '' @ d]"
  using assms
proof (cases rule: run_cases)
  case (returns r1 r2)
  show ?thesis unfolding returns by (simp add: reading)
qed simp_all

theorem prints_two_paths_witness:
  "main example_env = (Returned, snd (main example_env))
   \<and> (\<exists>n d. temp_file_of (snd (main example_env)) = Some n
         \<and> temp_dir_of (snd (main example_env)) = Some d
         \<and> stdout (snd (main example_env)) = [''Temp file name: '' @ n, ''Temp dir name: '' @ d])"
proof -
  have h: "main example_env = (Returned, snd (main example_env))"
    by (simp add: example_run)
  show ?thesis using h prints_two_paths [OF h] by simp
qed

text \<open>
  C8.  The first call of every run is \<^verbatim>\<open>os.CreateTemp("", "sample")\<close>, and it is
  the only call of \<^verbatim>\<open>os.CreateTemp\<close>.  When it returns a path, the path lies
  in the platform's default temporary location (it is that location joined
  with the path's base name), its base name starts with \<^verbatim>\<open>sample\<close>, the path
  did not exist before, and right after the call the path exists as an empty
  regular file with a handle open at offset 0.  The write through that handle
  fails only when the platform reports an I/O error.
\<close>

theorem temp_file_created:
  assumes "main env = (out, s)"
  shows "trace s \<noteq> [] \<and> e_call (hd (trace s)) = CreateTemp [] ''sample''
       \<and> (\<forall>e \<in> set (tl (trace s)). \<not> is_CreateTemp (e_call e))
       \<and> (\<forall>n. e_ret (hd (trace s)) = Some n \<longrightarrow>
            n = filepath_Join (temp_dir env) (filepath_Base n)
            \<and> prefix ''sample'' (filepath_Base n)
            \<and> map_of (initial_fs env) n = None
            \<and> map_of (e_fs (hd (trace s))) n = Some (RegularFile [])
            \<and> map_of (e_handles (hd (trace s))) n = Some 0)
       \<and> (\<forall>w \<in> set (trace s). is_Write (e_call w) \<longrightarrow> e_err w = write_fault env)"
  using assms
proof (cases rule: run_cases)
  case (createtemp_fails e)
  show ?thesis unfolding createtemp_fails by simp
next
  case (write_fails e r1)
  show ?thesis unfolding write_fails
    by (simp add: update_conv' tmpfile_in_temp_dir tmpfile_base_prefix write_fails(1))
next
  case (mkdirtemp_fails e r1)
  show ?thesis unfolding mkdirtemp_fails
    by (simp add: update_conv' tmpfile_in_temp_dir tmpfile_base_prefix mkdirtemp_fails(1))
next
  case (writefile_fails e r1 r2)
  show ?thesis unfolding writefile_fails
    by (simp add: update_conv' tmpfile_in_temp_dir tmpfile_base_prefix writefile_fails(1))
next
  case (returns r1 r2)
  show ?thesis unfolding returns
    by (simp add: update_conv' tmpfile_in_temp_dir tmpfile_base_prefix returns(1))
qed

theorem temp_file_created_witness:
  "main example_env = (Returned, snd (main example_env))
   \<and> e_ret (hd (trace (snd (main example_env)))) = Some ''/tmp/sample3''
   \<and> ''/tmp/sample3'' = filepath_Join (temp_dir example_env) ''sample3''
   \<and> filepath_Base ''/tmp/sample3'' = ''sample3''
   \<and> prefix ''sample'' (filepath_Base ''/tmp/sample3'')
   \<and> map_of (e_fs (hd (trace (snd (main example_env))))) ''/tmp/sample3'' = Some (RegularFile [])
   \<and> map_of (e_handles (hd (trace (snd (main example_env))))) ''/tmp/sample3'' = Some 0
   \<and> (\<exists>w \<in> set (trace (snd (main example_env))).
         is_Write (e_call w) \<and> e_err w = write_fault example_env)"
proof -
  have h: "main example_env = (Returned, snd (main example_env))"
    by (simp add: example_run)
  have r: "e_ret (hd (trace (snd (main example_env)))) = Some ''/tmp/sample3''"
    by (simp add: example_run)
  have b: "filepath_Base ''/tmp/sample3'' = ''sample3''"
    by (simp add: filepath_Base_def)
  have j: "filepath_Join (temp_dir example_env) ''sample3'' = ''/tmp/sample3''"
    by (simp add: example_env_def filepath_Join_def)
  note t = temp_file_created [OF h, THEN conjunct2, THEN conjunct2, THEN conjunct2,
      THEN conjunct1, rule_format, OF r, unfolded b j]
  have "write_fault example_env = None"
    by (simp add: example_env_def)
  then have w: "\<exists>w \<in> set (trace (snd (main example_env))).
      is_Write (e_call w) \<and> e_err w = write_fault example_env"
    by (simp add: example_run)
  from t h r b j w show ?thesis by simp
qed

text \<open>
  C10.  Every call of \<^verbatim>\<open>os.WriteFile\<close> that a run makes passes the permission
  mode 0666 (octal, that is 438), and a run that returns makes exactly one
  such call.
\<close>

theorem writefile_mode:
  assumes "main env = (out, s)"
  shows "(\<forall>c \<in> set (calls s). \<forall>p b m. c = WriteFile p b m \<longrightarrow> m = 6 * 8 ^ 2 + 6 * 8 + 6)
       \<and> (out = Returned \<longrightarrow> length (filter is_WriteFile (calls s)) = 1)"
  using assms
proof (cases rule: run_cases)
  case (createtemp_fails e)
  show ?thesis unfolding createtemp_fails by (simp add: reading)
next
  case (write_fails e r1)
  show ?thesis unfolding write_fails by (simp add: reading)
next
  case (mkdirtemp_fails e r1)
  show ?thesis unfolding mkdirtemp_fails by (simp add: reading)
next
  case (writefile_fails e r1 r2)
  show ?thesis unfolding writefile_fails by (simp add: reading)
next
  case (returns r1 r2)
  show ?thesis unfolding returns by (simp add: reading)
qed

theorem writefile_mode_witness:
  "main example_env = (Returned, snd (main example_env))
   \<and> WriteFile ''/tmp/sampledir7/file1'' [1, 2] 438 \<in> set (calls (snd (main example_env)))
   \<and> (438 :: 32 word) = 6 * 8 ^ 2 + 6 * 8 + 6
   \<and> length (filter is_WriteFile (calls (snd (main example_env)))) = 1"
proof -
  have h: "main example_env = (Returned, snd (main example_env))"
    by (simp add: example_run)
  have c: "WriteFile ''/tmp/sampledir7/file1'' [1, 2] 438 \<in> set (calls (snd (main example_env)))"
    by (simp add: example_run reading)
  note t = writefile_mode [OF h]
  from t [THEN conjunct1, THEN bspec, OF c] t [THEN conjunct2] h c show ?thesis by simp
qed

end
